theory Spec2Isabelle
  imports Main
begin

section \<open>Python values and exceptions\<close>

text \<open>
  The values that \<^verbatim>\<open>response.json()\<close> decodes and that the methods pass through:
  \<^verbatim>\<open>None\<close>, booleans, integers, floats, strings, lists and dictionaries with string keys.
  A float is carried as mantissa and exponent; the client only ever tests it for zero.
  A dictionary is an association list in insertion order, looked up with \<open>map_of\<close>.
\<close>

datatype json =
    JNull
  | JBool bool
  | JInt int
  | JFloat int int
  | JStr string
  | JArr "json list"
  | JObj "(string \<times> json) list"

text \<open>
  What the transport library reports when no response arrives. \<open>exc_str\<close> is the text
  that \<^verbatim>\<open>str(e)\<close> gives for the exception.
\<close>

datatype failure_kind = ConnectionRefused | DNSFailure | Timeout

datatype transport_exception = TransportException (exc_kind: failure_kind) (exc_str: string)

text \<open>
  Modelled from the spec: the class \<^verbatim>\<open>MaseDBError\<close> of \<^verbatim>\<open>masedb/exceptions.py\<close>, which is
  not among the sources. The spec describes a single error kind "parameterized by:
  human-readable message, optional machine error code, optional structured details
  mapping"; the constructor below takes them in that order, the two optional ones being
  \<open>None\<close> when the call site passes the message alone.

  The other constructors are the exceptions that are not \<^verbatim>\<open>MaseDBError\<close>:
  \<open>RequestException\<close> is \<^verbatim>\<open>requests.exceptions.RequestException\<close>, \<open>ClientError\<close> is the
  exception of the asynchronous HTTP library, the rest are Python's built-in ones.
\<close>

datatype exception =
    MaseDBError (message: json) (code: "json option") (details: "json option")
  | RequestException transport_exception
  | ClientError transport_exception
  | TypeError
  | AttributeError
  | KeyError
  | IndexError

type_synonym result = "exception + json"

definition bind_exc :: "exception + 'a \<Rightarrow> ('a \<Rightarrow> exception + 'b) \<Rightarrow> exception + 'b" where
  "bind_exc m f = (case m of Inl e \<Rightarrow> Inl e | Inr v \<Rightarrow> f v)"

subsection \<open>Operations of Python used by the client\<close>

text \<open>\<^verbatim>\<open>needle in hay\<close> for two strings: \<open>needle\<close> occurs as a contiguous piece.\<close>

fun prefix_of :: "string \<Rightarrow> string \<Rightarrow> bool" where
  "prefix_of [] ys = True"
| "prefix_of (x # xs) [] = False"
| "prefix_of (x # xs) (y # ys) = (x = y \<and> prefix_of xs ys)"

fun str_contains :: "string \<Rightarrow> string \<Rightarrow> bool" where
  "str_contains needle [] = (needle = [])"
| "str_contains needle (c # cs) = (prefix_of needle (c # cs) \<or> str_contains needle cs)"

text \<open>\<^verbatim>\<open>s.rstrip('/')\<close>, for one character: the trailing run of it is removed.\<close>

definition rstrip :: "char \<Rightarrow> string \<Rightarrow> string" where
  "rstrip ch s = rev (dropWhile (\<lambda>x. x = ch) (rev s))"

text \<open>\<^verbatim>\<open>str(n)\<close> for an integer: decimal digits, with a sign when negative.\<close>

definition digit_char :: "nat \<Rightarrow> char" where
  "digit_char d = ''0123456789'' ! d"

fun str_nat :: "nat \<Rightarrow> string" where
  "str_nat n = (if n < 10 then [digit_char n] else str_nat (n div 10) @ [digit_char (n mod 10)])"

declare str_nat.simps [simp del]

definition str_int :: "int \<Rightarrow> string" where
  "str_int i = (if i < 0 then CHR ''-'' # str_nat (nat (- i)) else str_nat (nat i))"

text \<open>Truth value of a Python object in \<^verbatim>\<open>if x\<close>, \<^verbatim>\<open>x or y\<close> and \<^verbatim>\<open>not x\<close>.\<close>

fun truthy :: "json \<Rightarrow> bool" where
  "truthy JNull = False"
| "truthy (JBool b) = b"
| "truthy (JInt i) = (i \<noteq> 0)"
| "truthy (JFloat m e) = (m \<noteq> 0)"
| "truthy (JStr s) = (s \<noteq> [])"
| "truthy (JArr xs) = (xs \<noteq> [])"
| "truthy (JObj d) = (d \<noteq> [])"

text \<open>
  \<^verbatim>\<open>'error' in x\<close>: key membership for a dictionary, element membership for a list,
  substring test for a string; any other object is not iterable and \<^verbatim>\<open>TypeError\<close> is raised.
\<close>

fun py_in :: "string \<Rightarrow> json \<Rightarrow> exception + bool" where
  "py_in k (JObj d) = Inr (map_of d k \<noteq> None)"
| "py_in k (JArr xs) = Inr (JStr k \<in> set xs)"
| "py_in k (JStr s) = Inr (str_contains k s)"
| "py_in k v = Inl TypeError"

text \<open>
  \<^verbatim>\<open>x['error']\<close>: the value of the key for a dictionary (\<^verbatim>\<open>KeyError\<close> when absent); lists and
  strings take integer indices only, the other objects are not subscriptable.
\<close>

fun py_getitem :: "json \<Rightarrow> string \<Rightarrow> exception + json" where
  "py_getitem (JObj d) k = (case map_of d k of None \<Rightarrow> Inl KeyError | Some v \<Rightarrow> Inr v)"
| "py_getitem v k = Inl TypeError"

text \<open>\<^verbatim>\<open>x.get(key, default)\<close>: only dictionaries have the method.\<close>

fun py_get :: "json \<Rightarrow> string \<Rightarrow> json \<Rightarrow> exception + json" where
  "py_get (JObj d) k dflt = (case map_of d k of None \<Rightarrow> Inr dflt | Some v \<Rightarrow> Inr v)"
| "py_get v k dflt = Inl AttributeError"

text \<open>
  \<^verbatim>\<open>x[0]\<close>: the first element of a list, the first character of a string. The keys of a
  decoded JSON object are strings, so \<open>0\<close> is never one of them.
\<close>

fun py_first :: "json \<Rightarrow> exception + json" where
  "py_first (JArr xs) = (case xs of [] \<Rightarrow> Inl IndexError | x # _ \<Rightarrow> Inr x)"
| "py_first (JStr s) = (case s of [] \<Rightarrow> Inl IndexError | ch # _ \<Rightarrow> Inr (JStr [ch]))"
| "py_first (JObj d) = Inl KeyError"
| "py_first v = Inl TypeError"

section \<open>The HTTP library as the client sees it\<close>

text \<open>
  A response object, reduced to what \<^verbatim>\<open>_handle_response\<close> reads from it:
  \<^item> \<open>status_code\<close> (\<^verbatim>\<open>status\<close> in the asynchronous library);
  \<^item> \<open>ok\<close>, the library's own success flag, which is the test the client makes where
    the spec says "2xx";
  \<^item> \<open>resp_headers\<close>, the header dictionary;
  \<^item> \<open>resp_text\<close>, the body as text, \<open>None\<close> when reading it raised;
  \<^item> \<open>resp_json\<close>, the outcome of \<^verbatim>\<open>response.json()\<close>: the decoded value, or \<open>Inl s\<close> for
    a \<^verbatim>\<open>ValueError\<close> whose text is \<open>s\<close>.
\<close>

record response =
  status_code :: int
  ok :: bool
  resp_headers :: "string \<rightharpoonup> string"
  resp_text :: "string option"
  resp_json :: "string + json"

text \<open>The arguments of one \<^verbatim>\<open>session.request(method, url, headers=headers, **kwargs)\<close>.\<close>

record request =
  req_method :: string
  req_url :: string
  req_headers :: "string \<rightharpoonup> string"
  req_json :: "json option"

text \<open>The keyword arguments that reach \<^verbatim>\<open>_request\<close>.\<close>

record kwargs =
  kw_headers :: "(string \<rightharpoonup> string) option"
  kw_json :: "json option"

definition no_kwargs :: kwargs where
  "no_kwargs = \<lparr>kw_headers = None, kw_json = None\<rparr>"

definition json_kwargs :: "json \<Rightarrow> kwargs" where
  "json_kwargs v = \<lparr>kw_headers = None, kw_json = Some v\<rparr>"

text \<open>
  The network: the requests handed to the library so far, and the remote side, which
  answers a request, given the ones before it, with a response or not at all.
  One \<open>session_request\<close> is one round trip.
\<close>

record network =
  sent :: "request list"
  server :: "request list \<Rightarrow> request \<Rightarrow> transport_exception + response"

definition session_request :: "network \<Rightarrow> request \<Rightarrow> (transport_exception + response) \<times> network" where
  "session_request net req = (server net (sent net) req, net\<lparr>sent := sent net @ [req]\<rparr>)"

section \<open>The blocking client\<close>

record client =
  api_key :: string
  BASE_URL :: string

definition default_base_url :: string where
  "default_base_url = ''https://masedb.maseai.online''"

definition MaseDBClient_init :: "string \<Rightarrow> string \<Rightarrow> client" where
  "MaseDBClient_init key base_url = \<lparr>api_key = key, BASE_URL = rstrip CHR ''/'' base_url\<rparr>"

definition content_type_of :: "response \<Rightarrow> string" where
  "content_type_of response =
     (case resp_headers response ''Content-Type'' of None \<Rightarrow> [] | Some v \<Rightarrow> v)"

definition body_or :: "string option \<Rightarrow> string \<Rightarrow> string" where
  "body_or body dflt = (case body of None \<Rightarrow> dflt | Some b \<Rightarrow> if b = [] then dflt else b)"

definition handle_response :: "response \<Rightarrow> result" where
  "handle_response response =
     (let body = resp_text response;
          content_type = content_type_of response
      in if ok response then
           (if body = None \<or> body = Some [] then Inr JNull
            else if \<not> str_contains ''application/json'' content_type then
              Inl (MaseDBError
                (JStr (''Invalid response format: Expected JSON, got '' @ content_type)) None None)
            else case resp_json response of
                Inr v \<Rightarrow> Inr v
              | Inl e \<Rightarrow> Inl (MaseDBError (JStr (''Invalid JSON response: '' @ e)) None None))
         else
           (let error_message =
                  ''HTTP '' @ str_int (status_code response) @ '': ''
                    @ body_or body ''No response body''
            in if str_contains ''application/json'' content_type then
                 (case resp_json response of
                    Inl e \<Rightarrow> Inl (MaseDBError (JStr error_message) None None)
                  | Inr error_data \<Rightarrow>
                      bind_exc (py_in ''error'' error_data) (\<lambda>has_error.
                        if has_error then
                          bind_exc (py_getitem error_data ''error'') (\<lambda>err.
                          bind_exc (py_get err ''message'' (JStr error_message)) (\<lambda>msg.
                          bind_exc (py_get err ''code'' (JStr ''UNKNOWN_ERROR'')) (\<lambda>error_code.
                          bind_exc (py_get err ''details'' (JObj [])) (\<lambda>error_details.
                            Inl (MaseDBError msg (Some error_code) (Some error_details))))))
                        else Inl (MaseDBError (JStr error_message) None None)))
               else Inl (MaseDBError (JStr error_message) None None)))"

text \<open>
  The first half of \<^verbatim>\<open>_request\<close>: the URL, and the header dictionary taken from the keyword
  arguments (empty when the caller gave none) with the three assignments made to it.
\<close>

definition build_request :: "client \<Rightarrow> string \<Rightarrow> string \<Rightarrow> kwargs \<Rightarrow> request" where
  "build_request c method endpoint kw =
     (let url = BASE_URL c @ endpoint;
          headers0 = (case kw_headers kw of None \<Rightarrow> Map.empty | Some h \<Rightarrow> h);
          headers1 = headers0(''X-API-Key'' \<mapsto> api_key c);
          headers2 = headers1(''Accept'' \<mapsto> ''application/json'');
          headers3 = (if method \<in> set [''POST'', ''PUT'']
                      then headers2(''Content-Type'' \<mapsto> ''application/json'')
                      else headers2(''Content-Type'' := None))
      in \<lparr>req_method = method, req_url = url, req_headers = headers3, req_json = kw_json kw\<rparr>)"

text \<open>
  The second half: the \<^verbatim>\<open>try\<close> block sends the request and handles the response; its
  \<^verbatim>\<open>except\<close> clause turns a \<^verbatim>\<open>RequestException\<close> raised by either into a \<^verbatim>\<open>MaseDBError\<close>.
\<close>

definition request :: "client \<Rightarrow> network \<Rightarrow> string \<Rightarrow> string \<Rightarrow> kwargs \<Rightarrow> result \<times> network" where
  "request c net method endpoint kw =
     (case session_request net (build_request c method endpoint kw) of (outcome, net') \<Rightarrow>
        (let tried = (case outcome of
                        Inl e \<Rightarrow> Inl (RequestException e)
                      | Inr response \<Rightarrow> handle_response response)
         in case tried of
              Inl (RequestException e) \<Rightarrow>
                (Inl (MaseDBError (JStr (''Request failed: '' @ exc_str e)) None None), net')
            | _ \<Rightarrow> (tried, net')))"

text \<open>\<^verbatim>\<open>query or {}\<close>: the query unless it is \<^verbatim>\<open>None\<close> or empty.\<close>

definition query_or_empty :: "json option \<Rightarrow> json" where
  "query_or_empty query =
     (case query of None \<Rightarrow> JObj [] | Some q \<Rightarrow> if truthy q then q else JObj [])"

definition list_collections :: "client \<Rightarrow> network \<Rightarrow> result \<times> network" where
  "list_collections c net =
     request c net ''GET'' ''/api/collections'' no_kwargs"

definition create_collection :: "client \<Rightarrow> network \<Rightarrow> string \<Rightarrow> string \<Rightarrow> result \<times> network" where
  "create_collection c net name description =
     (let data = JObj [(''name'', JStr name), (''description'', JStr description)]
      in request c net ''POST'' ''/api/collections'' (json_kwargs data))"

definition get_collection :: "client \<Rightarrow> network \<Rightarrow> string \<Rightarrow> result \<times> network" where
  "get_collection c net name =
     request c net ''GET'' (''/api/collections/'' @ name) no_kwargs"

definition delete_collection :: "client \<Rightarrow> network \<Rightarrow> string \<Rightarrow> result \<times> network" where
  "delete_collection c net name =
     request c net ''DELETE'' (''/api/collections/'' @ name) no_kwargs"

definition list_documents :: "client \<Rightarrow> network \<Rightarrow> string \<Rightarrow> json option \<Rightarrow> result \<times> network" where
  "list_documents c net collection_name query =
     request c net ''GET'' (''/api/'' @ collection_name) (json_kwargs (query_or_empty query))"

definition create_document :: "client \<Rightarrow> network \<Rightarrow> string \<Rightarrow> json \<Rightarrow> result \<times> network" where
  "create_document c net collection_name document =
     request c net ''POST'' (''/api/'' @ collection_name) (json_kwargs document)"

definition get_document :: "client \<Rightarrow> network \<Rightarrow> string \<Rightarrow> string \<Rightarrow> json option \<Rightarrow> result \<times> network" where
  "get_document c net collection_name document_id query =
     request c net ''GET'' (''/api/'' @ collection_name @ ''/'' @ document_id)
       (json_kwargs (query_or_empty query))"

definition update_document :: "client \<Rightarrow> network \<Rightarrow> string \<Rightarrow> string \<Rightarrow> json \<Rightarrow> result \<times> network" where
  "update_document c net collection_name document_id update =
     request c net ''PUT'' (''/api/'' @ collection_name @ ''/'' @ document_id) (json_kwargs update)"

definition delete_document :: "client \<Rightarrow> network \<Rightarrow> string \<Rightarrow> string \<Rightarrow> result \<times> network" where
  "delete_document c net collection_name document_id =
     request c net ''DELETE'' (''/api/'' @ collection_name @ ''/'' @ document_id) no_kwargs"

definition create_index :: "client \<Rightarrow> network \<Rightarrow> string \<Rightarrow> string list \<Rightarrow> result \<times> network" where
  "create_index c net collection_name fields' =
     (let data = JObj [(''fields'', JArr (map JStr fields'))]
      in request c net ''POST'' (''/api/collection/'' @ collection_name @ ''/index'') (json_kwargs data))"

definition list_indexes :: "client \<Rightarrow> network \<Rightarrow> string \<Rightarrow> result \<times> network" where
  "list_indexes c net collection_name =
     request c net ''GET'' (''/api/collection/'' @ collection_name @ ''/index'') no_kwargs"

definition start_transaction :: "client \<Rightarrow> network \<Rightarrow> result \<times> network" where
  "start_transaction c net =
     request c net ''POST'' ''/api/transaction'' (json_kwargs (JObj []))"

definition commit_transaction :: "client \<Rightarrow> network \<Rightarrow> string \<Rightarrow> result \<times> network" where
  "commit_transaction c net transaction_id =
     request c net ''POST'' (''/api/transaction/'' @ transaction_id) no_kwargs"

definition rollback_transaction :: "client \<Rightarrow> network \<Rightarrow> string \<Rightarrow> result \<times> network" where
  "rollback_transaction c net transaction_id =
     request c net ''POST'' (''/api/transaction/'' @ transaction_id @ ''/rollback'') no_kwargs"

definition get_transaction_status :: "client \<Rightarrow> network \<Rightarrow> string \<Rightarrow> result \<times> network" where
  "get_transaction_status c net transaction_id =
     request c net ''GET'' (''/api/transaction/'' @ transaction_id) no_kwargs"

definition get_stats :: "client \<Rightarrow> network \<Rightarrow> result \<times> network" where
  "get_stats c net =
     request c net ''GET'' ''/api/stats'' no_kwargs"

definition get_detailed_stats :: "client \<Rightarrow> network \<Rightarrow> result \<times> network" where
  "get_detailed_stats c net =
     request c net ''GET'' ''/api/stats/detailed'' no_kwargs"

definition find_one :: "client \<Rightarrow> network \<Rightarrow> string \<Rightarrow> json option \<Rightarrow> result \<times> network" where
  "find_one c net collection_name query =
     (case list_documents c net collection_name query of
        (Inl e, net') \<Rightarrow> (Inl e, net')
      | (Inr results, net') \<Rightarrow>
          (if truthy results then py_first results else Inr JNull, net'))"

definition insert_one :: "client \<Rightarrow> network \<Rightarrow> string \<Rightarrow> json \<Rightarrow> result \<times> network" where
  "insert_one c net collection_name document =
     create_document c net collection_name document"

section \<open>The non-blocking client\<close>

text \<open>
  The asynchronous class keeps, beside the key and the base URL, the default headers of
  the session it opens. Awaiting is sequencing here: the model runs one call at a time.
\<close>

record async_client = client +
  session_headers :: "string \<rightharpoonup> string"

definition AsyncMaseDBClient_init :: "string \<Rightarrow> string \<Rightarrow> async_client" where
  "AsyncMaseDBClient_init key base_url =
     \<lparr>api_key = key, BASE_URL = rstrip CHR ''/'' base_url,
      session_headers = [''X-API-Key'' \<mapsto> key, ''Accept'' \<mapsto> ''application/json'']\<rparr>"

definition async_handle_response :: "response \<Rightarrow> result" where
  "async_handle_response response =
     (let body = resp_text response;
          content_type = content_type_of response
      in if ok response then
           (if body = None \<or> body = Some [] then Inr JNull
            else if \<not> str_contains ''application/json'' content_type then
              Inl (MaseDBError
                (JStr (''Invalid response format: Expected JSON, got '' @ content_type)) None None)
            else case resp_json response of
                Inr v \<Rightarrow> Inr v
              | Inl e \<Rightarrow> Inl (MaseDBError (JStr (''Invalid JSON response: '' @ e)) None None))
         else
           (let error_message =
                  ''HTTP '' @ str_int (status_code response) @ '': ''
                    @ body_or body ''No response body''
            in if str_contains ''application/json'' content_type then
                 (case resp_json response of
                    Inl e \<Rightarrow> Inl (MaseDBError (JStr error_message) None None)
                  | Inr error_data \<Rightarrow>
                      bind_exc (py_in ''error'' error_data) (\<lambda>has_error.
                        if has_error then
                          bind_exc (py_getitem error_data ''error'') (\<lambda>err.
                          bind_exc (py_get err ''message'' (JStr error_message)) (\<lambda>msg.
                          bind_exc (py_get err ''code'' (JStr ''UNKNOWN_ERROR'')) (\<lambda>error_code.
                          bind_exc (py_get err ''details'' (JObj [])) (\<lambda>error_details.
                            Inl (MaseDBError msg (Some error_code) (Some error_details))))))
                        else Inl (MaseDBError (JStr error_message) None None)))
               else Inl (MaseDBError (JStr error_message) None None)))"

definition async_build_request :: "async_client \<Rightarrow> string \<Rightarrow> string \<Rightarrow> kwargs \<Rightarrow> request" where
  "async_build_request c method endpoint kw =
     (let url = BASE_URL c @ endpoint;
          headers0 = (case kw_headers kw of None \<Rightarrow> Map.empty | Some h \<Rightarrow> h);
          headers1 = headers0(''X-API-Key'' \<mapsto> api_key c);
          headers2 = headers1(''Accept'' \<mapsto> ''application/json'');
          headers3 = (if method \<in> set [''POST'', ''PUT'']
                      then headers2(''Content-Type'' \<mapsto> ''application/json'')
                      else headers2(''Content-Type'' := None))
      in \<lparr>req_method = method, req_url = url, req_headers = headers3, req_json = kw_json kw\<rparr>)"

text \<open>
  Here the request is sent inside \<^verbatim>\<open>async with\<close>, with no \<^verbatim>\<open>try\<close> around it: an exception
  of the library leaves \<^verbatim>\<open>_request\<close> as it is.
\<close>

definition async_request :: "async_client \<Rightarrow> network \<Rightarrow> string \<Rightarrow> string \<Rightarrow> kwargs \<Rightarrow> result \<times> network" where
  "async_request c net method endpoint kw =
     (case session_request net (async_build_request c method endpoint kw) of (outcome, net') \<Rightarrow>
        (case outcome of
           Inl e \<Rightarrow> (Inl (ClientError e), net')
         | Inr response \<Rightarrow> (async_handle_response response, net')))"

definition async_list_collections :: "async_client \<Rightarrow> network \<Rightarrow> result \<times> network" where
  "async_list_collections c net =
     async_request c net ''GET'' ''/api/collections'' no_kwargs"

definition async_create_collection :: "async_client \<Rightarrow> network \<Rightarrow> string \<Rightarrow> string \<Rightarrow> result \<times> network" where
  "async_create_collection c net name description =
     (let data = JObj [(''name'', JStr name), (''description'', JStr description)]
      in async_request c net ''POST'' ''/api/collections'' (json_kwargs data))"

definition async_get_collection :: "async_client \<Rightarrow> network \<Rightarrow> string \<Rightarrow> result \<times> network" where
  "async_get_collection c net name =
     async_request c net ''GET'' (''/api/collections/'' @ name) no_kwargs"

definition async_delete_collection :: "async_client \<Rightarrow> network \<Rightarrow> string \<Rightarrow> result \<times> network" where
  "async_delete_collection c net name =
     async_request c net ''DELETE'' (''/api/collections/'' @ name) no_kwargs"

definition async_list_documents :: "async_client \<Rightarrow> network \<Rightarrow> string \<Rightarrow> json option \<Rightarrow> result \<times> network" where
  "async_list_documents c net collection_name query =
     async_request c net ''GET'' (''/api/'' @ collection_name) (json_kwargs (query_or_empty query))"

definition async_create_document :: "async_client \<Rightarrow> network \<Rightarrow> string \<Rightarrow> json \<Rightarrow> result \<times> network" where
  "async_create_document c net collection_name document =
     async_request c net ''POST'' (''/api/'' @ collection_name) (json_kwargs document)"

definition async_get_document :: "async_client \<Rightarrow> network \<Rightarrow> string \<Rightarrow> string \<Rightarrow> json option \<Rightarrow> result \<times> network" where
  "async_get_document c net collection_name document_id query =
     async_request c net ''GET'' (''/api/'' @ collection_name @ ''/'' @ document_id)
       (json_kwargs (query_or_empty query))"

definition async_update_document :: "async_client \<Rightarrow> network \<Rightarrow> string \<Rightarrow> string \<Rightarrow> json \<Rightarrow> result \<times> network" where
  "async_update_document c net collection_name document_id update =
     async_request c net ''PUT'' (''/api/'' @ collection_name @ ''/'' @ document_id) (json_kwargs update)"

definition async_delete_document :: "async_client \<Rightarrow> network \<Rightarrow> string \<Rightarrow> string \<Rightarrow> result \<times> network" where
  "async_delete_document c net collection_name document_id =
     async_request c net ''DELETE'' (''/api/'' @ collection_name @ ''/'' @ document_id) no_kwargs"

definition async_create_index :: "async_client \<Rightarrow> network \<Rightarrow> string \<Rightarrow> string list \<Rightarrow> result \<times> network" where
  "async_create_index c net collection_name fields' =
     (let data = JObj [(''fields'', JArr (map JStr fields'))]
      in async_request c net ''POST'' (''/api/collection/'' @ collection_name @ ''/index'') (json_kwargs data))"

definition async_list_indexes :: "async_client \<Rightarrow> network \<Rightarrow> string \<Rightarrow> result \<times> network" where
  "async_list_indexes c net collection_name =
     async_request c net ''GET'' (''/api/collection/'' @ collection_name @ ''/index'') no_kwargs"

definition async_start_transaction :: "async_client \<Rightarrow> network \<Rightarrow> result \<times> network" where
  "async_start_transaction c net =
     async_request c net ''POST'' ''/api/transaction'' (json_kwargs (JObj []))"

definition async_commit_transaction :: "async_client \<Rightarrow> network \<Rightarrow> string \<Rightarrow> result \<times> network" where
  "async_commit_transaction c net transaction_id =
     async_request c net ''POST'' (''/api/transaction/'' @ transaction_id) no_kwargs"

definition async_rollback_transaction :: "async_client \<Rightarrow> network \<Rightarrow> string \<Rightarrow> result \<times> network" where
  "async_rollback_transaction c net transaction_id =
     async_request c net ''POST'' (''/api/transaction/'' @ transaction_id @ ''/rollback'') no_kwargs"

definition async_get_transaction_status :: "async_client \<Rightarrow> network \<Rightarrow> string \<Rightarrow> result \<times> network" where
  "async_get_transaction_status c net transaction_id =
     async_request c net ''GET'' (''/api/transaction/'' @ transaction_id) no_kwargs"

definition async_get_stats :: "async_client \<Rightarrow> network \<Rightarrow> result \<times> network" where
  "async_get_stats c net =
     async_request c net ''GET'' ''/api/stats'' no_kwargs"

definition async_get_detailed_stats :: "async_client \<Rightarrow> network \<Rightarrow> result \<times> network" where
  "async_get_detailed_stats c net =
     async_request c net ''GET'' ''/api/stats/detailed'' no_kwargs"

definition async_find_one :: "async_client \<Rightarrow> network \<Rightarrow> string \<Rightarrow> json option \<Rightarrow> result \<times> network" where
  "async_find_one c net collection_name query =
     (case async_list_documents c net collection_name query of
        (Inl e, net') \<Rightarrow> (Inl e, net')
      | (Inr results, net') \<Rightarrow>
          (if truthy results then py_first results else Inr JNull, net'))"

definition async_insert_one :: "async_client \<Rightarrow> network \<Rightarrow> string \<Rightarrow> json \<Rightarrow> result \<times> network" where
  "async_insert_one c net collection_name document =
     async_create_document c net collection_name document"

section \<open>Calls\<close>

text \<open>One public method with its arguments, to speak of every method at once.\<close>

datatype call =
    ListCollections
  | CreateCollection string string
  | GetCollection string
  | DeleteCollection string
  | ListDocuments string "json option"
  | FindOne string "json option"
  | CreateDocument string json
  | InsertOne string json
  | GetDocument string string "json option"
  | UpdateDocument string string json
  | DeleteDocument string string
  | CreateIndex string "string list"
  | ListIndexes string
  | StartTransaction
  | CommitTransaction string
  | RollbackTransaction string
  | GetTransactionStatus string
  | GetStats
  | GetDetailedStats

fun invoke :: "client \<Rightarrow> network \<Rightarrow> call \<Rightarrow> result \<times> network" where
  "invoke c net ListCollections = list_collections c net"
| "invoke c net (CreateCollection a b) = create_collection c net a b"
| "invoke c net (GetCollection a) = get_collection c net a"
| "invoke c net (DeleteCollection a) = delete_collection c net a"
| "invoke c net (ListDocuments a q) = list_documents c net a q"
| "invoke c net (FindOne a q) = find_one c net a q"
| "invoke c net (CreateDocument a d) = create_document c net a d"
| "invoke c net (InsertOne a d) = insert_one c net a d"
| "invoke c net (GetDocument a b q) = get_document c net a b q"
| "invoke c net (UpdateDocument a b d) = update_document c net a b d"
| "invoke c net (DeleteDocument a b) = delete_document c net a b"
| "invoke c net (CreateIndex a fs) = create_index c net a fs"
| "invoke c net (ListIndexes a) = list_indexes c net a"
| "invoke c net StartTransaction = start_transaction c net"
| "invoke c net (CommitTransaction a) = commit_transaction c net a"
| "invoke c net (RollbackTransaction a) = rollback_transaction c net a"
| "invoke c net (GetTransactionStatus a) = get_transaction_status c net a"
| "invoke c net GetStats = get_stats c net"
| "invoke c net GetDetailedStats = get_detailed_stats c net"

fun async_invoke :: "async_client \<Rightarrow> network \<Rightarrow> call \<Rightarrow> result \<times> network" where
  "async_invoke c net ListCollections = async_list_collections c net"
| "async_invoke c net (CreateCollection a b) = async_create_collection c net a b"
| "async_invoke c net (GetCollection a) = async_get_collection c net a"
| "async_invoke c net (DeleteCollection a) = async_delete_collection c net a"
| "async_invoke c net (ListDocuments a q) = async_list_documents c net a q"
| "async_invoke c net (FindOne a q) = async_find_one c net a q"
| "async_invoke c net (CreateDocument a d) = async_create_document c net a d"
| "async_invoke c net (InsertOne a d) = async_insert_one c net a d"
| "async_invoke c net (GetDocument a b q) = async_get_document c net a b q"
| "async_invoke c net (UpdateDocument a b d) = async_update_document c net a b d"
| "async_invoke c net (DeleteDocument a b) = async_delete_document c net a b"
| "async_invoke c net (CreateIndex a fs) = async_create_index c net a fs"
| "async_invoke c net (ListIndexes a) = async_list_indexes c net a"
| "async_invoke c net StartTransaction = async_start_transaction c net"
| "async_invoke c net (CommitTransaction a) = async_commit_transaction c net a"
| "async_invoke c net (RollbackTransaction a) = async_rollback_transaction c net a"
| "async_invoke c net (GetTransactionStatus a) = async_get_transaction_status c net a"
| "async_invoke c net GetStats = async_get_stats c net"
| "async_invoke c net GetDetailedStats = async_get_detailed_stats c net"

section \<open>Sample inputs\<close>

text \<open>A remote side that cannot be reached, and one that answers every request alike.\<close>

definition refusing_network :: network where
  "refusing_network =
     \<lparr>sent = [],
      server = (\<lambda>history rq. Inl (TransportException ConnectionRefused ''Connection refused''))\<rparr>"

definition timing_out_network :: network where
  "timing_out_network =
     \<lparr>sent = [], server = (\<lambda>history rq. Inl (TransportException Timeout ''Read timed out''))\<rparr>"

definition answering :: "response \<Rightarrow> network" where
  "answering r = \<lparr>sent = [], server = (\<lambda>history rq. Inr r)\<rparr>"




text \<open>A failure reply that is not JSON at all.\<close>

definition bad_gateway_response :: response where
  "bad_gateway_response =
     \<lparr>status_code = 502, ok = False,
      resp_headers = [''Content-Type'' \<mapsto> ''text/html''],
      resp_text = Some ''Bad Gateway'',
      resp_json = Inl ''Expecting value: line 1 column 1 (char 0)''\<rparr>"

text \<open>Successful replies: a list of two documents, and no body.\<close>

definition two_documents :: json where
  "two_documents = JArr [JObj [(''_id'', JStr ''a'')], JObj [(''_id'', JStr ''b'')]]"

definition documents_response :: response where
  \<open>documents_response =
     \<lparr>status_code = 200, ok = True,
      resp_headers = [''Content-Type'' \<mapsto> ''application/json''],
      resp_text = Some ''[{"_id": "a"}, {"_id": "b"}]'',
      resp_json = Inr two_documents\<rparr>\<close>

definition no_documents_response :: response where
  "no_documents_response =
     \<lparr>status_code = 200, ok = True,
      resp_headers = [''Content-Type'' \<mapsto> ''application/json''],
      resp_text = Some ''[]'',
      resp_json = Inr (JArr [])\<rparr>"

definition sample_client :: client where
  "sample_client = MaseDBClient_init ''secret'' ''https://db.example.org//''"

definition sample_async_client :: async_client where
  "sample_async_client = AsyncMaseDBClient_init ''secret'' ''https://db.example.org//''"

definition empty_response :: response where
  "empty_response =
     \<lparr>status_code = 204, ok = True, resp_headers = Map.empty, resp_text = Some [],
      resp_json = Inl ''Expecting value: line 1 column 1 (char 0)''\<rparr>"

section \<open>Basic facts\<close>

lemma fst_session_request [simp]: "fst (session_request net rq) = server net (sent net) rq"
  by (simp add: session_request_def)

lemma snd_session_request [simp]: "snd (session_request net rq) = net\<lparr>sent := sent net @ [rq]\<rparr>"
  by (simp add: session_request_def)

lemma async_handle_response_eq: "async_handle_response r = handle_response r"
  unfolding async_handle_response_def handle_response_def ..

lemma py_in_no_transport: "py_in k v \<noteq> Inl (RequestException e)"
  by (cases v) simp_all

lemma py_getitem_no_transport: "py_getitem v k \<noteq> Inl (RequestException e)"
  by (cases v) (simp_all split: option.splits)

lemma py_get_no_transport: "py_get v k d \<noteq> Inl (RequestException e)"
  by (cases v) (simp_all split: option.splits)

lemma bind_exc_Inl_iff:
  "(bind_exc m f = Inl x) = (m = Inl x \<or> (\<exists>v. m = Inr v \<and> f v = Inl x))"
  by (cases m) (simp_all add: bind_exc_def)

lemma handle_response_no_transport: "handle_response r \<noteq> Inl (RequestException e)"
  by (auto simp: handle_response_def Let_def bind_exc_Inl_iff
        py_in_no_transport py_getitem_no_transport py_get_no_transport
      split: sum.splits if_splits)

lemma request_eq:
  "request c net m e kw =
     (case server net (sent net) (build_request c m e kw) of
        Inl ex \<Rightarrow> Inl (MaseDBError (JStr (''Request failed: '' @ exc_str ex)) None None)
      | Inr r \<Rightarrow> handle_response r,
      net\<lparr>sent := sent net @ [build_request c m e kw]\<rparr>)"
proof (cases "server net (sent net) (build_request c m e kw)")
  case (Inl ex)
  then show ?thesis by (simp add: request_def session_request_def)
next
  case answered: (Inr r)
  show ?thesis
  proof (cases "handle_response r")
    case (Inl x)
    with answered handle_response_no_transport [of r] show ?thesis
      by (cases x) (auto simp: request_def session_request_def)
  next
    case (Inr v)
    with answered show ?thesis by (simp add: request_def session_request_def)
  qed
qed

lemma async_request_eq:
  "async_request c net m e kw =
     (case server net (sent net) (async_build_request c m e kw) of
        Inl ex \<Rightarrow> Inl (ClientError ex)
      | Inr r \<Rightarrow> handle_response r,
      net\<lparr>sent := sent net @ [async_build_request c m e kw]\<rparr>)"
  by (simp add: async_request_def session_request_def async_handle_response_eq split: sum.splits)

lemmas method_defs =
  list_collections_def create_collection_def get_collection_def delete_collection_def
  list_documents_def create_document_def get_document_def update_document_def
  delete_document_def create_index_def list_indexes_def start_transaction_def
  commit_transaction_def rollback_transaction_def get_transaction_status_def
  get_stats_def get_detailed_stats_def insert_one_def

lemmas async_method_defs =
  async_list_collections_def async_create_collection_def async_get_collection_def
  async_delete_collection_def async_list_documents_def async_create_document_def
  async_get_document_def async_update_document_def async_delete_document_def
  async_create_index_def async_list_indexes_def async_start_transaction_def
  async_commit_transaction_def async_rollback_transaction_def
  async_get_transaction_status_def async_get_stats_def async_get_detailed_stats_def
  async_insert_one_def

lemma snd_find_one: "snd (find_one c net coll q) = snd (list_documents c net coll q)"
  by (simp add: find_one_def split: prod.splits sum.splits)

lemma snd_async_find_one:
  "snd (async_find_one c net coll q) = snd (async_list_documents c net coll q)"
  by (simp add: async_find_one_def split: prod.splits sum.splits)

lemma fst_find_one:
  "fst (find_one c net coll q) =
     (case fst (list_documents c net coll q) of
        Inl e \<Rightarrow> Inl e
      | Inr results \<Rightarrow> if truthy results then py_first results else Inr JNull)"
  by (simp add: find_one_def split: prod.splits sum.splits)

lemma fst_async_find_one:
  "fst (async_find_one c net coll q) =
     (case fst (async_list_documents c net coll q) of
        Inl e \<Rightarrow> Inl e
      | Inr results \<Rightarrow> if truthy results then py_first results else Inr JNull)"
  by (simp add: async_find_one_def split: prod.splits sum.splits)

lemma invoke_sends_one:
  "\<exists>rq e. sent (snd (invoke c net cl)) = sent net @ [rq] \<and>
      req_url rq = BASE_URL c @ ''/api/'' @ e"
  by (cases cl)
     (simp_all add: method_defs snd_find_one request_eq build_request_def Let_def)

lemma async_invoke_sends_one:
  "\<exists>rq e. sent (snd (async_invoke c net cl)) = sent net @ [rq] \<and>
      req_url rq = BASE_URL c @ ''/api/'' @ e"
  by (cases cl)
     (simp_all add: async_method_defs snd_async_find_one async_request_eq
        async_build_request_def Let_def)

lemma build_request_same:
  "api_key c' = api_key c \<Longrightarrow> BASE_URL c' = BASE_URL c \<Longrightarrow>
   async_build_request c' m e kw = build_request c m e kw"
  by (simp add: async_build_request_def build_request_def)

lemma requests_agree_when_answered:
  assumes "api_key c' = api_key c" and "BASE_URL c' = BASE_URL c"
    and "server net (sent net) (build_request c m e kw) = Inr r"
  shows "async_request c' net m e kw = request c net m e kw"
  using assms by (simp add: request_eq async_request_eq build_request_same)

lemma clients_agree_when_answered:
  assumes "api_key c' = api_key c" and "BASE_URL c' = BASE_URL c"
    and "\<And>rq. \<exists>r. server net (sent net) rq = Inr r"
  shows "async_invoke c' net cl = invoke c net cl"
proof -
  have "async_request c' net m e kw = request c net m e kw" for m e kw
    using assms(3) [of "build_request c m e kw"] requests_agree_when_answered [OF assms(1,2)]
    by blast
  then show ?thesis
    by (cases cl) (simp_all add: method_defs async_method_defs find_one_def async_find_one_def)
qed

lemma rstrip_replicate: "rstrip ch (s @ replicate n ch) = rstrip ch s"
proof -
  have "dropWhile (\<lambda>x. x = ch) (replicate n ch @ rev s) = dropWhile (\<lambda>x. x = ch) (rev s)"
    by (rule dropWhile_append2) simp
  then show ?thesis by (simp add: rstrip_def)
qed

lemma rstrip_no_trailing: "rstrip ch s = [] \<or> last (rstrip ch s) \<noteq> ch"
proof (cases "dropWhile (\<lambda>x. x = ch) (rev s)")
  case Nil
  then show ?thesis by (simp add: rstrip_def)
next
  case (Cons x xs)
  then have "\<not> (x = ch)" using hd_dropWhile [of "\<lambda>x. x = ch" "rev s"] by auto
  with Cons show ?thesis by (simp add: rstrip_def)
qed

lemma blocking_transport_failure_wrapped:
  assumes "\<And>rq. server net (sent net) rq = Inl ex"
  shows "fst (invoke c net cl)
     = Inl (MaseDBError (JStr (''Request failed: '' @ exc_str ex)) None None)"
  by (cases cl) (simp_all add: method_defs fst_find_one request_eq assms)

lemma async_transport_failure_raw:
  assumes "\<And>rq. server net (sent net) rq = Inl ex"
  shows "fst (async_invoke c net cl) = Inl (ClientError ex)"
  by (cases cl) (simp_all add: async_method_defs fst_async_find_one async_request_eq assms)

lemma generic_error_message:
  assumes "\<not> ok r"
    and "\<not> str_contains ''application/json'' (content_type_of r)
         \<or> (\<exists>e. resp_json r = Inl e)
         \<or> (\<exists>d. resp_json r = Inr (JObj d) \<and> map_of d ''error'' = None)
         \<or> (\<exists>xs. resp_json r = Inr (JArr xs) \<and> JStr ''error'' \<notin> set xs)
         \<or> (\<exists>s. resp_json r = Inr (JStr s) \<and> \<not> str_contains ''error'' s)"
  shows "handle_response r =
     Inl (MaseDBError (JStr (''HTTP '' @ str_int (status_code r) @ '': ''
            @ (case resp_text r of None \<Rightarrow> ''No response body''
               | Some b \<Rightarrow> if b = [] then ''No response body'' else b))) None None)"
  using assms
  by (auto simp: handle_response_def Let_def bind_exc_def body_or_def split: option.splits)

section \<open>The claims\<close>

text \<open>
  C1. A transport-level failure (connection refused, DNS failure, timeout) raised while the
  request is sent is to be caught and raised again as a \<^verbatim>\<open>MaseDBError\<close> with a descriptive
  message, in both clients. The blocking client does so for every method
  (\<open>blocking_transport_failure_wrapped\<close>). The non-blocking client has no handler around
  the send, and every method lets the library's exception through
  (\<open>async_transport_failure_raw\<close>): with the remote side refusing the connection,
  \<^verbatim>\<open>get_stats\<close> raises the library's \<open>ClientError\<close>, where the blocking client raises
  \<^verbatim>\<open>MaseDBError("Request failed: Connection refused")\<close>.
\<close>

theorem async_transport_failure_not_wrapped:
  "fst (async_invoke sample_async_client refusing_network GetStats)
     = Inl (ClientError (TransportException ConnectionRefused ''Connection refused'')) \<and>
   fst (invoke sample_client refusing_network GetStats)
     = Inl (MaseDBError (JStr ''Request failed: Connection refused'') None None)"
  by (simp add: async_get_stats_def get_stats_def async_request_eq request_eq
        refusing_network_def)






text \<open>
  C5. When the reply is a success (its \<open>ok\<close> flag is true): with an empty body, or one that
  could not be read, the call returns \<^verbatim>\<open>None\<close> and does not raise; with a non-empty body, a
  content type containing \<^verbatim>\<open>application/json\<close> and a body that decodes to \<open>v\<close>, the call
  returns \<open>v\<close> itself. Both clients.
\<close>

theorem success_returns_decoded_body:
  assumes "ok r"
    and "server net (sent net) (build_request c m e kw) = Inr r"
    and "server net' (sent net') (async_build_request c' m e kw) = Inr r"
  shows "(resp_text r = None \<or> resp_text r = Some [] \<longrightarrow>
            fst (request c net m e kw) = Inr JNull \<and>
            fst (async_request c' net' m e kw) = Inr JNull) \<and>
         (resp_text r = Some b \<and> b \<noteq> [] \<and>
          str_contains ''application/json'' (content_type_of r) \<and> resp_json r = Inr v \<longrightarrow>
            fst (request c net m e kw) = Inr v \<and>
            fst (async_request c' net' m e kw) = Inr v)"
  using assms by (auto simp: request_eq async_request_eq handle_response_def Let_def)

text \<open>
  A 204 reply without body to \<^verbatim>\<open>delete_document\<close>, and a list of two documents returned
  to \<^verbatim>\<open>list_documents\<close>.
\<close>

theorem success_returns_decoded_body_witness:
  "ok empty_response \<and> resp_text empty_response = Some [] \<and>
   fst (delete_document sample_client (answering empty_response) ''users'' ''123'') = Inr JNull \<and>
   fst (async_delete_document sample_async_client (answering empty_response) ''users'' ''123'')
     = Inr JNull \<and>
   ok documents_response \<and> resp_json documents_response = Inr two_documents \<and>
   fst (list_documents sample_client (answering documents_response) ''users'' None)
     = Inr two_documents \<and>
   fst (async_list_documents sample_async_client (answering documents_response) ''users'' None)
     = Inr two_documents"
  using success_returns_decoded_body [where r = empty_response
      and net = "answering empty_response" and net' = "answering empty_response"
      and c = sample_client and c' = sample_async_client and m = "''DELETE''"
      and e = "''/api/users/123''" and kw = no_kwargs]
    success_returns_decoded_body [where r = documents_response
      and net = "answering documents_response" and net' = "answering documents_response"
      and c = sample_client and c' = sample_async_client and m = "''GET''"
      and e = "''/api/users''" and kw = "json_kwargs (JObj [])"
      and b = \<open>''[{"_id": "a"}, {"_id": "b"}]''\<close> and v = two_documents]
  by (simp add: delete_document_def async_delete_document_def list_documents_def
        async_list_documents_def query_or_empty_def answering_def empty_response_def
        documents_response_def content_type_of_def)

text \<open>
  C6. \<^verbatim>\<open>find_one(coll, q)\<close> leaves the network as \<^verbatim>\<open>list_documents(coll, q)\<close> leaves it, with
  exactly one more request sent; when \<^verbatim>\<open>list_documents\<close> returns a list, \<^verbatim>\<open>find_one\<close> returns
  its first element, or \<^verbatim>\<open>None\<close> when the list is empty. Both clients.
\<close>

theorem find_one_first_or_null:
  "snd (find_one c net coll q) = snd (list_documents c net coll q) \<and>
   length (sent (snd (find_one c net coll q))) = Suc (length (sent net)) \<and>
   (fst (list_documents c net coll q) = Inr (JArr xs) \<longrightarrow>
      fst (find_one c net coll q) = Inr (case xs of [] \<Rightarrow> JNull | x # _ \<Rightarrow> x)) \<and>
   snd (async_find_one c' net coll q) = snd (async_list_documents c' net coll q) \<and>
   length (sent (snd (async_find_one c' net coll q))) = Suc (length (sent net)) \<and>
   (fst (async_list_documents c' net coll q) = Inr (JArr xs) \<longrightarrow>
      fst (async_find_one c' net coll q) = Inr (case xs of [] \<Rightarrow> JNull | x # _ \<Rightarrow> x))"
proof -
  have "length (sent (snd (list_documents c net coll q))) = Suc (length (sent net))"
    by (simp add: list_documents_def request_eq)
  moreover
  have "length (sent (snd (async_list_documents c' net coll q))) = Suc (length (sent net))"
    by (simp add: async_list_documents_def async_request_eq)
  ultimately show ?thesis
    by (simp add: snd_find_one snd_async_find_one fst_find_one fst_async_find_one
          split: list.splits)
qed

text \<open>Two documents found, and none.\<close>

theorem find_one_first_or_null_witness:
  "fst (list_documents sample_client (answering documents_response) ''users'' None)
     = Inr two_documents \<and>
   fst (find_one sample_client (answering documents_response) ''users'' None)
     = Inr (JObj [(''_id'', JStr ''a'')]) \<and>
   fst (async_find_one sample_async_client (answering documents_response) ''users'' None)
     = Inr (JObj [(''_id'', JStr ''a'')]) \<and>
   fst (list_documents sample_client (answering no_documents_response) ''users'' None)
     = Inr (JArr []) \<and>
   fst (find_one sample_client (answering no_documents_response) ''users'' None) = Inr JNull \<and>
   fst (async_find_one sample_async_client (answering no_documents_response) ''users'' None)
     = Inr JNull"
proof -
  have fresh: "sent (answering r) = []" for r
    by (simp add: answering_def)
  have docs: "handle_response documents_response = Inr two_documents"
    by (simp add: handle_response_def documents_response_def content_type_of_def)
  have none: "handle_response no_documents_response = Inr (JArr [])"
    by (simp add: handle_response_def no_documents_response_def content_type_of_def)
  have "fst (list_documents sample_client (answering documents_response) ''users'' None)
          = Inr two_documents"
    and "fst (async_list_documents sample_async_client (answering documents_response) ''users'' None)
          = Inr two_documents"
    and "fst (list_documents sample_client (answering no_documents_response) ''users'' None)
          = Inr (JArr [])"
    and "fst (async_list_documents sample_async_client (answering no_documents_response)
            ''users'' None) = Inr (JArr [])"
    by (simp_all add: list_documents_def async_list_documents_def request_eq async_request_eq
          answering_def docs none)
  then show ?thesis
    using find_one_first_or_null [where c = sample_client and c' = sample_async_client
        and net = "answering documents_response" and coll = "''users''" and q = None
        and xs = "[JObj [(''_id'', JStr ''a'')], JObj [(''_id'', JStr ''b'')]]"]
      find_one_first_or_null [where c = sample_client and c' = sample_async_client
        and net = "answering no_documents_response" and coll = "''users''" and q = None
        and xs = "[]"]
    by (simp add: two_documents_def fresh)
qed

text \<open>
  C7. For every collection name and document, \<^verbatim>\<open>insert_one\<close> and \<^verbatim>\<open>create_document\<close> send
  the same single request, a POST to \<^verbatim>\<open>/api/{collection}\<close> whose body is the document, and
  return the same result. Both clients.
\<close>

theorem insert_one_is_create_document:
  "insert_one c net coll doc = create_document c net coll doc \<and>
   async_insert_one c' net coll doc = async_create_document c' net coll doc \<and>
   (\<exists>rq. sent (snd (insert_one c net coll doc)) = sent net @ [rq] \<and>
      sent (snd (create_document c net coll doc)) = sent net @ [rq] \<and>
      req_method rq = ''POST'' \<and> req_url rq = BASE_URL c @ ''/api/'' @ coll \<and>
      req_json rq = Some doc) \<and>
   (\<exists>rq. sent (snd (async_insert_one c' net coll doc)) = sent net @ [rq] \<and>
      sent (snd (async_create_document c' net coll doc)) = sent net @ [rq] \<and>
      req_method rq = ''POST'' \<and> req_url rq = BASE_URL c' @ ''/api/'' @ coll \<and>
      req_json rq = Some doc)"
  by (simp add: insert_one_def async_insert_one_def create_document_def
       async_create_document_def request_eq async_request_eq build_request_def
       async_build_request_def Let_def json_kwargs_def)

text \<open>
  C8. The two clients are to build the same requests and produce the same results and the
  same errors. They build the same request (\<open>build_request_same\<close>) and agree on every method
  whenever the remote side answers (\<open>clients_agree_when_answered\<close>). When it does not, they
  differ, by the missing handler of C1: on a timeout \<^verbatim>\<open>list_collections\<close> sends the same
  request in both, and raises \<^verbatim>\<open>MaseDBError\<close> in the blocking client and the library's
  \<open>ClientError\<close> in the non-blocking one.
\<close>

theorem clients_differ_on_transport_failure:
  "sent (snd (invoke sample_client timing_out_network ListCollections))
     = sent (snd (async_invoke sample_async_client timing_out_network ListCollections)) \<and>
   fst (invoke sample_client timing_out_network ListCollections)
     = Inl (MaseDBError (JStr ''Request failed: Read timed out'') None None) \<and>
   fst (async_invoke sample_async_client timing_out_network ListCollections)
     = Inl (ClientError (TransportException Timeout ''Read timed out''))"
  by (simp add: list_collections_def async_list_collections_def request_eq async_request_eq
        timing_out_network_def build_request_def async_build_request_def sample_client_def
        sample_async_client_def MaseDBClient_init_def AsyncMaseDBClient_init_def)

text \<open>
  C9. The request that \<^verbatim>\<open>_request\<close> hands to the HTTP library, in either client and whatever
  the method, the endpoint and the keyword arguments (headers of the caller's own among
  them), carries \<^verbatim>\<open>X-API-Key\<close> set to the key the client was constructed with, unchanged,
  and \<^verbatim>\<open>Accept: application/json\<close>.
\<close>

theorem auth_and_accept_headers:
  "(\<exists>rq. sent (snd (request (MaseDBClient_init key base_url) net m e kw)) = sent net @ [rq] \<and>
      req_headers rq ''X-API-Key'' = Some key \<and>
      req_headers rq ''Accept'' = Some ''application/json'') \<and>
   (\<exists>rq. sent (snd (async_request (AsyncMaseDBClient_init key base_url) net m e kw))
        = sent net @ [rq] \<and>
      req_headers rq ''X-API-Key'' = Some key \<and>
      req_headers rq ''Accept'' = Some ''application/json'')"
  by (simp add: request_eq async_request_eq build_request_def async_build_request_def Let_def
       MaseDBClient_init_def AsyncMaseDBClient_init_def)

text \<open>
  C10. A client constructed with a base URL followed by any number of \<^verbatim>\<open>/\<close> is the client
  constructed with the base URL itself, so every method does the same with both; the URL
  of the request a method sends is the stripped base URL followed by an endpoint that
  starts with \<^verbatim>\<open>/api/\<close>, and the stripped base URL does not end with \<^verbatim>\<open>/\<close>: no double slash
  arises where the two meet. Both clients.
\<close>

theorem base_url_trailing_slashes:
  "MaseDBClient_init key (base_url @ replicate n CHR ''/'') = MaseDBClient_init key base_url \<and>
   AsyncMaseDBClient_init key (base_url @ replicate n CHR ''/'')
     = AsyncMaseDBClient_init key base_url \<and>
   invoke (MaseDBClient_init key (base_url @ replicate n CHR ''/'')) net cl
     = invoke (MaseDBClient_init key base_url) net cl \<and>
   async_invoke (AsyncMaseDBClient_init key (base_url @ replicate n CHR ''/'')) net cl
     = async_invoke (AsyncMaseDBClient_init key base_url) net cl \<and>
   (\<exists>rq e. sent (snd (invoke (MaseDBClient_init key base_url) net cl)) = sent net @ [rq] \<and>
      req_url rq = rstrip CHR ''/'' base_url @ ''/api/'' @ e) \<and>
   (\<exists>rq e. sent (snd (async_invoke (AsyncMaseDBClient_init key base_url) net cl))
        = sent net @ [rq] \<and>
      req_url rq = rstrip CHR ''/'' base_url @ ''/api/'' @ e) \<and>
   (rstrip CHR ''/'' base_url = [] \<or> last (rstrip CHR ''/'' base_url) \<noteq> CHR ''/'')"
proof -
  have sync: "MaseDBClient_init key (base_url @ replicate n CHR ''/'')
      = MaseDBClient_init key base_url"
    by (simp add: MaseDBClient_init_def rstrip_replicate)
  have async: "AsyncMaseDBClient_init key (base_url @ replicate n CHR ''/'')
      = AsyncMaseDBClient_init key base_url"
    by (simp add: AsyncMaseDBClient_init_def rstrip_replicate)
  have url: "BASE_URL (MaseDBClient_init key base_url) = rstrip CHR ''/'' base_url"
    by (simp add: MaseDBClient_init_def)
  have async_url: "BASE_URL (AsyncMaseDBClient_init key base_url) = rstrip CHR ''/'' base_url"
    by (simp add: AsyncMaseDBClient_init_def)
  show ?thesis
    using invoke_sends_one [of "MaseDBClient_init key base_url" net cl]
      async_invoke_sends_one [of "AsyncMaseDBClient_init key base_url" net cl]
      rstrip_no_trailing [of "CHR ''/''" base_url]
    unfolding sync async url async_url by blast
qed

text \<open>
  The base URL \<^verbatim>\<open>https://db.example.org\<close> with two slashes behind it, and the URL that
  \<^verbatim>\<open>get_stats\<close> requests.
\<close>

theorem base_url_trailing_slashes_witness:
  "MaseDBClient_init ''secret'' ''https://db.example.org//''
     = MaseDBClient_init ''secret'' ''https://db.example.org'' \<and>
   rstrip CHR ''/'' ''https://db.example.org'' = ''https://db.example.org'' \<and>
   last (rstrip CHR ''/'' ''https://db.example.org'') \<noteq> CHR ''/'' \<and>
   map req_url (sent (snd (invoke (MaseDBClient_init ''secret'' ''https://db.example.org//'')
      refusing_network GetStats))) = [''https://db.example.org/api/stats''] \<and>
   map req_url (sent (snd (async_invoke
      (AsyncMaseDBClient_init ''secret'' ''https://db.example.org//'')
      refusing_network GetStats))) = [''https://db.example.org/api/stats'']"
proof -
  have strip: "rstrip CHR ''/'' ''https://db.example.org'' = ''https://db.example.org''"
    by (simp add: rstrip_def)
  have two: "''https://db.example.org'' @ replicate 2 CHR ''/'' = ''https://db.example.org//''"
    by (simp add: numeral_2_eq_2)
  show ?thesis
    using base_url_trailing_slashes [where key = "''secret''"
        and base_url = "''https://db.example.org''" and n = 2 and net = refusing_network
        and cl = GetStats]
    unfolding two strip
    by (simp add: get_stats_def async_get_stats_def request_eq async_request_eq
          build_request_def async_build_request_def refusing_network_def
          MaseDBClient_init_def AsyncMaseDBClient_init_def strip)
qed

end
